theory Spec2Isabelle
  imports Complex_Main
begin

section \<open>The synthesizer effect of libSoX (synth.c)\<close>

text \<open>
  The effect computes in C \<^verbatim>\<open>double\<close>. This development reads every \<^verbatim>\<open>double\<close> as a
  real number and every libm function (\<^verbatim>\<open>sqrt\<close>, \<^verbatim>\<open>fabs\<close>, \<^verbatim>\<open>exp\<close>, \<^verbatim>\<open>log\<close>, \<^verbatim>\<open>fmod\<close>) as
  the mathematical function it approximates, so rounding, infinities and NaN are outside
  the model. Sample counts and array indices (\<^verbatim>\<open>size_t\<close>) are natural numbers: the
  wrap-around of a machine word is not modelled.
\<close>

subsection \<open>Data model\<close>

text \<open>The enumeration \<^verbatim>\<open>type_t\<close>: tones first, noises and pluck after them.\<close>

datatype type_t =
  synth_sine | synth_square | synth_sawtooth | synth_triangle | synth_trapezium | synth_exp
  | synth_whitenoise | synth_tpdfnoise | synth_pinknoise | synth_brownnoise | synth_pluck

text \<open>The integer value of an enumerator, used where the source compares types by order.\<close>

fun type_value :: "type_t \<Rightarrow> nat" where
  "type_value synth_sine = 0"
| "type_value synth_square = 1"
| "type_value synth_sawtooth = 2"
| "type_value synth_triangle = 3"
| "type_value synth_trapezium = 4"
| "type_value synth_exp = 5"
| "type_value synth_whitenoise = 6"
| "type_value synth_tpdfnoise = 7"
| "type_value synth_pinknoise = 8"
| "type_value synth_brownnoise = 9"
| "type_value synth_pluck = 10"

text \<open>\<^verbatim>\<open>synth_noise = synth_whitenoise\<close>: "just a handy alias".\<close>

abbreviation synth_noise :: type_t where
  "synth_noise \<equiv> synth_whitenoise"

datatype combine_t = synth_create | synth_mix | synth_amod | synth_fmod

datatype sweep_t = Linear | Square | Exp | Exp_cycle

fun sweep_value :: "sweep_t \<Rightarrow> nat" where
  "sweep_value Linear = 0"
| "sweep_value Square = 1"
| "sweep_value Exp = 2"
| "sweep_value Exp_cycle = 3"

definition PINK_MAX_RANDOM_ROWS :: nat where
  "PINK_MAX_RANDOM_ROWS = 30"

definition PINK_RANDOM_BITS :: nat where
  "PINK_RANDOM_BITS = 24"

record PinkNoise =
  pink_Rows :: "int list"
  pink_RunningSum :: int
  pink_Index :: int
  pink_IndexMask :: int
  pink_Scalar :: real

record channel_t =
  type :: type_t
  combine :: combine_t
  freq :: real
  freq2 :: real
  mult :: real
  sweep :: sweep_t
  offset :: real
  phase :: real
  p1 :: real
  p2 :: real
  p3 :: real
  lp_last_out :: real
  hp_last_out :: real
  hp_last_in :: real
  ap_last_out :: real
  ap_last_in :: real
  cycle_start_time_s :: real
  c0 :: real
  c1 :: real
  c2 :: real
  c3 :: real
  c4 :: real
  pink_noise :: PinkNoise
  buffer :: "real list"
  buffer_len :: nat
  pos :: nat

text \<open>
  What C leaves undefined and the source does not guard: a shift of an \<^verbatim>\<open>int\<close> by 31 bits
  or more, and a store past the end of \<^verbatim>\<open>pink_Rows\<close>. The model stops there with a fault.
\<close>

datatype fault = ShiftOverflow nat | RowIndexOutOfBounds nat

subsection \<open>Channel creation\<close>

text \<open>\<^verbatim>\<open>memset(chan, 0, sizeof(*chan))\<close> for the embedded pink-noise structure.\<close>

definition zero_pink :: PinkNoise where
  "zero_pink = \<lparr> pink_Rows = replicate PINK_MAX_RANDOM_ROWS 0, pink_RunningSum = 0,
     pink_Index = 0, pink_IndexMask = 0, pink_Scalar = 0 \<rparr>"

definition create_channel :: channel_t where
  "create_channel = \<lparr> type = synth_sine, combine = synth_create,
     freq = 440, freq2 = 440, mult = 0, sweep = Linear, offset = 0, phase = 0,
     p1 = -1, p2 = -1, p3 = -1,
     lp_last_out = 0, hp_last_out = 0, hp_last_in = 0, ap_last_out = 0, ap_last_in = 0,
     cycle_start_time_s = 0, c0 = 0, c1 = 0, c2 = 0, c3 = 0, c4 = 0,
     pink_noise = zero_pink, buffer = [], buffer_len = 0, pos = 0 \<rparr>"

subsection \<open>Pink noise set-up\<close>

text \<open>
  The loop \<^verbatim>\<open>for (i = 0; i < numRows; i++) pink->pink_Rows[i] = 0\<close>: \<open>clear_rows n\<close> has
  run the iterations \<open>0 .. n - 1\<close>, in that order, and faults at the first index that is
  not one of the array's.
  \<^verbatim>\<open>pink_Scalar\<close> is a C \<^verbatim>\<open>float\<close>; the model keeps the exact quotient.
\<close>

fun clear_rows :: "nat \<Rightarrow> int list \<Rightarrow> fault + int list" where
  "clear_rows 0 rows = Inr rows"
| "clear_rows (Suc i) rows =
     (case clear_rows i rows of
        Inl e \<Rightarrow> Inl e
      | Inr rs \<Rightarrow> if i < length rs then Inr (rs[i := 0]) else Inl (RowIndexOutOfBounds i))"

definition InitializePinkNoise :: "PinkNoise \<Rightarrow> nat \<Rightarrow> fault + PinkNoise" where
  "InitializePinkNoise pink numRows =
     (if numRows \<ge> 31 then Inl (ShiftOverflow numRows)
      else
        let pmax = (numRows + 1) * 2 ^ (PINK_RANDOM_BITS - 1) in
        case clear_rows numRows (pink_Rows pink) of
          Inl e \<Rightarrow> Inl e
        | Inr rows \<Rightarrow>
            Inr (pink\<lparr> pink_Index := 0, pink_IndexMask := 2 ^ numRows - 1,
                       pink_Scalar := 1 / real pmax, pink_Rows := rows,
                       pink_RunningSum := 0 \<rparr>))"

subsection \<open>Default resolution of the shape parameters\<close>

definition set_default_parameters :: "channel_t \<Rightarrow> nat \<Rightarrow> fault + channel_t" where
  "set_default_parameters chan c =
     (case type chan of
        synth_square \<Rightarrow> Inr (if p1 chan < 0 then chan\<lparr>p1 := 1/2\<rparr> else chan)
      | synth_triangle \<Rightarrow> Inr (if p1 chan < 0 then chan\<lparr>p1 := 1/2\<rparr> else chan)
      | synth_trapezium \<Rightarrow>
          Inr (if p1 chan < 0 then chan\<lparr>p1 := 1/10, p2 := 1/2, p3 := 6/10\<rparr>
               else if p2 chan < 0 then
                 (if p1 chan \<le> 1/2
                  then chan\<lparr>p2 := (1 - 2 * p1 chan) / 2, p3 := (1 - 2 * p1 chan) / 2 + p1 chan\<rparr>
                  else chan\<lparr>p2 := p1 chan, p3 := 1\<rparr>)
               else if p3 chan < 0 then chan\<lparr>p3 := 1\<rparr>
               else chan)
      | synth_pinknoise \<Rightarrow>
          (case InitializePinkNoise (pink_noise chan) (10 + 2 * c) of
             Inl e \<Rightarrow> Inl e
           | Inr pk \<Rightarrow> Inr (chan\<lparr>pink_noise := pk\<rparr>))
      | synth_exp \<Rightarrow>
          (let chan1 = (if p1 chan < 0 then chan\<lparr>p1 := 1/2\<rparr> else chan)
           in Inr (if p2 chan1 < 0 then chan1\<lparr>p2 := 1/2\<rparr> else chan1))
      | synth_pluck \<Rightarrow>
          (let chan1 = (if p1 chan < 0 then chan\<lparr>p1 := 4/10\<rparr> else chan)
           in Inr (if p2 chan1 < 0 then chan1\<lparr>p2 := 2/10, p3 := 9/10\<rparr> else chan1))
      | _ \<Rightarrow> Inr chan)"

subsection \<open>Macros and library functions used by the effect\<close>

text \<open>
  Modelled from the spec: the macro \<^verbatim>\<open>sqr\<close> comes from \<^verbatim>\<open>sox_i.h\<close>, which is not among the
  sources; the spec writes the square-law phase with \<open>(n * m)\<^sup>2\<close>.
\<close>

definition sqr :: "real \<Rightarrow> real" where
  "sqr a = a * a"

text \<open>
  The macro \<^verbatim>\<open>sign\<close> is likewise defined in \<^verbatim>\<open>sox_i.h\<close>; the functions below that expand it
  take it as their first argument.

  C's \<^verbatim>\<open>fmod (x, y)\<close> is \<open>x - n * y\<close> for the integer \<open>n\<close> obtained by truncating \<open>x / y\<close>
  towards zero, so the result has the sign of \<open>x\<close>.
\<close>

definition fmod :: "real \<Rightarrow> real \<Rightarrow> real" where
  "fmod x y = x - real_of_int (if 0 \<le> x / y then \<lfloor>x / y\<rfloor> else \<lceil>x / y\<rceil>) * y"

subsection \<open>Sweep multipliers (\<^verbatim>\<open>start\<close>)\<close>

text \<open>
  The \<^verbatim>\<open>switch (chan->sweep)\<close> that ends the per-channel loop of \<^verbatim>\<open>start\<close>;
  \<open>samples_to_do\<close> is \<^verbatim>\<open>p->samples_to_do\<close> and \<open>rate\<close> is \<^verbatim>\<open>effp->in_signal.rate\<close>.
  Where C divides by zero (an exponential sweep between equal frequencies has
  \<open>mult = 0\<close>) the result is an infinity in C and 0 here; no theorem below is about such a
  channel.
\<close>

definition start_sweep :: "channel_t \<Rightarrow> nat \<Rightarrow> real \<Rightarrow> channel_t" where
  "start_sweep chan samples_to_do rate =
     (case sweep chan of
        Linear \<Rightarrow>
          chan\<lparr>mult := (if samples_to_do \<noteq> 0
                         then (freq2 chan - freq chan) / real samples_to_do / 2 else 0)\<rparr>
      | Square \<Rightarrow>
          (let chan1 = chan\<lparr>mult := (if samples_to_do \<noteq> 0
                         then sqrt \<bar>freq2 chan - freq chan\<bar> / real samples_to_do / sqrt 3
                         else 0)\<rparr>
           in if freq chan1 > freq2 chan1 then chan1\<lparr>mult := - mult chan1\<rparr> else chan1)
      | Exp \<Rightarrow>
          (let chan1 = chan\<lparr>mult := (if samples_to_do \<noteq> 0
                         then ln (freq2 chan / freq chan) / real samples_to_do * rate
                         else 1)\<rparr>
           in chan1\<lparr>freq := freq chan1 / mult chan1\<rparr>)
      | Exp_cycle \<Rightarrow>
          chan\<lparr>mult := (if samples_to_do \<noteq> 0
                         then (ln (freq2 chan) - ln (freq chan)) / real samples_to_do
                         else 1)\<rparr>)"

subsection \<open>Phase of a tonal channel (\<^verbatim>\<open>flow\<close>)\<close>

text \<open>
  The exponential-per-cycle law: the only one that writes the channel
  (\<^verbatim>\<open>cycle_start_time_s\<close>). \<^verbatim>\<open>elapsed_time_s\<close> is a macro for
  \<^verbatim>\<open>p->samples_done / effp->in_signal.rate\<close> and is written out where it is expanded.
\<close>

definition exp_cycle_phase :: "channel_t \<Rightarrow> nat \<Rightarrow> real \<Rightarrow> real \<times> channel_t" where
  "exp_cycle_phase chan samples_done rate =
     (let f = freq chan * exp (real samples_done * mult chan);
          cycle_elapsed_time_s = real samples_done / rate - cycle_start_time_s chan
      in if f * cycle_elapsed_time_s \<ge> 1
         then (let chan1 = chan\<lparr>cycle_start_time_s := cycle_start_time_s chan + 1 / f\<rparr>
               in (f * (real samples_done / rate - cycle_start_time_s chan1), chan1))
         else (f * cycle_elapsed_time_s, chan))"

text \<open>The \<^verbatim>\<open>switch (chan->sweep)\<close> of \<^verbatim>\<open>flow\<close>: the phase before the offset is added.\<close>

definition sweep_phase ::
  "(real \<Rightarrow> real) \<Rightarrow> channel_t \<Rightarrow> nat \<Rightarrow> real \<Rightarrow> real \<times> channel_t" where
  "sweep_phase sign chan samples_done rate =
     (case sweep chan of
        Linear \<Rightarrow>
          ((freq chan + real samples_done * mult chan) * real samples_done / rate, chan)
      | Square \<Rightarrow>
          ((freq chan + sign (mult chan) * sqr (real samples_done * mult chan))
             * real samples_done / rate, chan)
      | Exp \<Rightarrow> (freq chan * exp (mult chan * real samples_done / rate), chan)
      | Exp_cycle \<Rightarrow> exp_cycle_phase chan samples_done rate)"

text \<open>
  \<^verbatim>\<open>phase = fmod(phase + chan->phase, 1.0)\<close>: the value the waveform \<^verbatim>\<open>switch\<close> reads,
  declared in the source as \<^verbatim>\<open>double phase; /* [0, 1) */\<close>. It is computed for the types
  below \<^verbatim>\<open>synth_noise\<close> only.
\<close>

definition tonal_phase ::
  "(real \<Rightarrow> real) \<Rightarrow> channel_t \<Rightarrow> nat \<Rightarrow> real \<Rightarrow> (real \<times> channel_t) option" where
  "tonal_phase sign chan samples_done rate =
     (if type_value (type chan) < type_value synth_noise
      then (let (ph, chan1) = sweep_phase sign chan samples_done rate
            in Some (fmod (ph + phase chan1) 1, chan1))
      else None)"


subsection \<open>Brown noise (\<^verbatim>\<open>flow\<close>)\<close>

text \<open>
  \<^verbatim>\<open>do synth_out = chan->lp_last_out + DRANQD1 * (1. / 16); while (fabs(synth_out) > 1);\<close>
  The macro \<^verbatim>\<open>DRANQD1\<close> (the next value of the global generator) is not among the sources:
  the values it returns, in order, are the list \<open>draws\<close>. Each turn of the loop takes one;
  \<open>None\<close> says that the loop has not ended within the draws given.
\<close>

fun brownnoise_loop :: "real \<Rightarrow> real list \<Rightarrow> (real \<times> real list) option" where
  "brownnoise_loop last_out [] = None"
| "brownnoise_loop last_out (r # draws) =
     (let synth_out = last_out + r * (1 / 16)
      in if \<bar>synth_out\<bar> > 1 then brownnoise_loop last_out draws else Some (synth_out, draws))"

definition brownnoise :: "channel_t \<Rightarrow> real list \<Rightarrow> (real \<times> channel_t \<times> real list) option" where
  "brownnoise chan draws =
     (case brownnoise_loop (lp_last_out chan) draws of
        None \<Rightarrow> None
      | Some (synth_out, rest) \<Rightarrow> Some (synth_out, chan\<lparr>lp_last_out := synth_out\<rparr>, rest))"

text \<open>The first \<open>k\<close> samples of a brown-noise channel, one call of the above per frame.\<close>

fun brownnoise_samples ::
  "nat \<Rightarrow> channel_t \<Rightarrow> real list \<Rightarrow> (real list \<times> channel_t \<times> real list) option" where
  "brownnoise_samples 0 chan draws = Some ([], chan, draws)"
| "brownnoise_samples (Suc k) chan draws =
     (case brownnoise chan draws of
        None \<Rightarrow> None
      | Some (synth_out, chan1, rest) \<Rightarrow>
          (case brownnoise_samples k chan1 rest of
             None \<Rightarrow> None
           | Some (outs, chan2, rest2) \<Rightarrow> Some (synth_out # outs, chan2, rest2)))"

subsection \<open>Pluck: in-delay filter graduation and normalisation (\<^verbatim>\<open>start\<close>)\<close>

text \<open>
  The loop \<^verbatim>\<open>for (j = 0, min = max = 0; j < chan->buffer_len; ++j)\<close>. The buffer was
  allocated with \<^verbatim>\<open>buffer_len\<close> elements, and iteration \<open>j\<close> reads and writes element \<open>j\<close>
  only, so the loop is a walk along the list: \<open>graduation j bs chan mn mx\<close> is the loop from
  index \<open>j\<close> on, \<open>bs\<close> being the elements from \<open>j\<close> on. It returns the new elements, the
  channel (its filter memories) and \<^verbatim>\<open>min\<close>, \<^verbatim>\<open>max\<close>.

  Modelled from the spec: the macros \<^verbatim>\<open>min\<close> and \<^verbatim>\<open>max\<close> come from \<^verbatim>\<open>sox_i.h\<close>, which is not
  among the sources; the spec calls their results the minimum and maximum.
\<close>

fun graduation ::
  "nat \<Rightarrow> real list \<Rightarrow> channel_t \<Rightarrow> real \<Rightarrow> real \<Rightarrow> real list \<times> channel_t \<times> real \<times> real" where
  "graduation j [] chan mn mx = ([], chan, mn, mx)"
| "graduation j (b # bs) chan mn mx =
     (let t = real j / real (buffer_len chan);
          d = b * c1 chan + lp_last_out chan * c0 chan;
          chan1 = chan\<lparr>lp_last_out := d\<rparr>;
          chan2 = chan1\<lparr>ap_last_out :=
                    d * c4 chan1 + ap_last_in chan1 - ap_last_out chan1 * c4 chan1\<rparr>;
          chan3 = chan2\<lparr>ap_last_in := d\<rparr>;
          b' = b * (1 - t) + ap_last_out chan3 * t;
          (bs', chan4, mn', mx') = graduation (Suc j) bs chan3 (min mn b') (max mx b')
      in (b' # bs', chan4, mn', mx'))"

text \<open>
  The loop \<^verbatim>\<open>chan->buffer[j] = (2 * chan->buffer[j] - max - min) / (max - min)\<close>; the sum of
  squares it also forms is only logged.
\<close>

definition normalise :: "real \<Rightarrow> real \<Rightarrow> real list \<Rightarrow> real list" where
  "normalise mn mx buf = map (\<lambda>v. (2 * v - mx - mn) / (mx - mn)) buf"

definition graduate_and_normalise :: "channel_t \<Rightarrow> channel_t" where
  "graduate_and_normalise chan =
     (let (buf, chan1, mn, mx) = graduation 0 (buffer chan) chan 0 0
      in chan1\<lparr>buffer := normalise mn mx buf\<rparr>)"

subsection \<open>Reading the frequencies (\<^verbatim>\<open>getopts\<close>)\<close>

text \<open>The failures of \<^verbatim>\<open>getopts\<close>; each is an \<^verbatim>\<open>lsx_fail\<close> followed by \<^verbatim>\<open>return SOX_EOF\<close>.\<close>

datatype error =
  InvalidFreq | CantSweepThisType | InvalidFreq2 | DurationMustBeGiven
  | InvalidTrailingCharacter | InvalidFrequencyForExponentialSweep

definition sweeps :: string where
  "sweeps = '':+/-''"

text \<open>\<^verbatim>\<open>strchr(s, c) - s\<close> for a character \<open>c\<close> other than the terminator.\<close>

fun strchr :: "string \<Rightarrow> char \<Rightarrow> nat option" where
  "strchr [] c = None"
| "strchr (x # xs) c = (if x = c then Some 0 else map_option Suc (strchr xs c))"

fun sweep_of_value :: "nat \<Rightarrow> sweep_t" where
  "sweep_of_value 0 = Linear"
| "sweep_of_value (Suc 0) = Square"
| "sweep_of_value (Suc (Suc 0)) = Exp"
| "sweep_of_value _ = Exp_cycle"

text \<open>
  The frequencies are read by a parser and tested as C \<^verbatim>\<open>double\<close>s, which can be infinite
  or NaN; the tests of \<^verbatim>\<open>getopts\<close> decide differently there, so this block keeps them: a
  \<open>double\<close> is a real number, an infinity or NaN. On finite values the operations are the
  real ones (rounding, overflow and underflow of a finite product are not modelled). A
  comparison with NaN is false, and zero times an infinity is NaN.
\<close>

datatype double = Finite real | PlusInf | MinusInf | NaN

fun double_less :: "double \<Rightarrow> double \<Rightarrow> bool" where
  "double_less NaN y = False"
| "double_less x NaN = False"
| "double_less (Finite a) (Finite b) = (a < b)"
| "double_less (Finite a) PlusInf = True"
| "double_less (Finite a) MinusInf = False"
| "double_less MinusInf MinusInf = False"
| "double_less MinusInf y = True"
| "double_less PlusInf y = False"

fun double_times :: "double \<Rightarrow> double \<Rightarrow> double" where
  "double_times NaN y = NaN"
| "double_times x NaN = NaN"
| "double_times (Finite a) (Finite b) = Finite (a * b)"
| "double_times (Finite a) PlusInf = (if a = 0 then NaN else if 0 < a then PlusInf else MinusInf)"
| "double_times (Finite a) MinusInf = (if a = 0 then NaN else if 0 < a then MinusInf else PlusInf)"
| "double_times PlusInf (Finite b) = (if b = 0 then NaN else if 0 < b then PlusInf else MinusInf)"
| "double_times MinusInf (Finite b) = (if b = 0 then NaN else if 0 < b then MinusInf else PlusInf)"
| "double_times PlusInf PlusInf = PlusInf"
| "double_times PlusInf MinusInf = MinusInf"
| "double_times MinusInf PlusInf = MinusInf"
| "double_times MinusInf MinusInf = PlusInf"

text \<open>
  The block "read frequencies if given" of the channel loop of \<^verbatim>\<open>getopts\<close>, entered with
  the argument \<open>arg\<close>. The parser \<^verbatim>\<open>lsx_parse_frequency_k\<close> is not among the sources and is
  a parameter: it maps a text to the frequency read and the text left (\<^verbatim>\<open>end_ptr\<close>).
  \<open>length_given\<close> is \<^verbatim>\<open>p->length_str != NULL\<close>. Of the channel the block reads the type and
  the sweep law; what it writes (\<^verbatim>\<open>chan->sweep\<close>, \<^verbatim>\<open>chan->freq\<close>, \<^verbatim>\<open>chan->freq2\<close>) is its
  result.
\<close>

definition read_frequencies ::
  "(string \<Rightarrow> double \<times> string) \<Rightarrow> bool \<Rightarrow> channel_t \<Rightarrow> string
     \<Rightarrow> error + (sweep_t \<times> double \<times> double)" where
  "read_frequencies lsx_parse_frequency_k length_given chan arg =
     (let (f, end_ptr) = lsx_parse_frequency_k arg
      in if double_less f (Finite (if type chan = synth_pluck then 55 / 2 else 0))
            \<or> (type chan = synth_pluck \<and> double_less (Finite 4220) f)
         then Inl InvalidFreq
         else
           (case (case end_ptr of
                    [] \<Rightarrow> Inr (sweep chan, f, f, end_ptr)
                  | ch # rest \<Rightarrow>
                      (case strchr sweeps ch of
                         None \<Rightarrow> Inr (sweep chan, f, f, end_ptr)
                       | Some i \<Rightarrow>
                           if type_value (type chan) \<ge> type_value synth_noise
                           then Inl CantSweepThisType
                           else
                             (let (f2, end_ptr2) = lsx_parse_frequency_k rest
                              in if double_less f2 (Finite 0) then Inl InvalidFreq2
                                 else if \<not> length_given then Inl DurationMustBeGiven
                                 else Inr (sweep_of_value i, f, f2, end_ptr2)))) of
              Inl e \<Rightarrow> Inl e
            | Inr (sw, fr, fr2, end_ptr3) \<Rightarrow>
                if end_ptr3 \<noteq> [] then Inl InvalidTrailingCharacter
                else if sweep_value sw \<ge> sweep_value Exp \<and> double_times fr fr2 = Finite 0
                then Inl InvalidFrequencyForExponentialSweep
                else Inr (sw, fr, fr2)))"

subsection \<open>Offset\<close>

text \<open>"Add offset, but prevent clipping": the statement of \<^verbatim>\<open>flow\<close> applied to every sample.\<close>

definition add_offset :: "channel_t \<Rightarrow> real \<Rightarrow> real" where
  "add_offset chan synth_out = synth_out * (1 - \<bar>offset chan\<bar>) + offset chan"

section \<open>Theorems\<close>

text \<open>
  C8. For every synthesized sample \<open>s\<close> in \<open>[-1,1]\<close> and every DC offset \<open>o\<close> in \<open>[-1,1]\<close>, the
  offset step \<open>s' = s * (1 - |o|) + o\<close> gives a value that stays in \<open>[-1,1]\<close>.
\<close>

theorem add_offset_in_range:
  assumes "-1 \<le> s" "s \<le> 1" "-1 \<le> offset chan" "offset chan \<le> 1"
  shows "add_offset chan s = s * (1 - \<bar>offset chan\<bar>) + offset chan
         \<and> -1 \<le> add_offset chan s \<and> add_offset chan s \<le> 1"
proof -
  define k where "k = 1 - \<bar>offset chan\<bar>"
  have k0: "0 \<le> k" and k1: "k \<le> 1"
    using assms by (auto simp: k_def)
  have up: "s * k \<le> k"
    using mult_right_mono [OF assms(2) k0] by simp
  have lo: "- k \<le> s * k"
    using mult_right_mono [OF assms(1) k0] by simp
  have "k + offset chan \<le> 1" "-1 \<le> - k + offset chan"
    by (auto simp: k_def)
  with up lo show ?thesis
    unfolding add_offset_def k_def [symmetric] by linarith
qed

theorem add_offset_in_range_witness:
  "add_offset (create_channel\<lparr>offset := 1/2\<rparr>) (-1) = 0
   \<and> -1 \<le> add_offset (create_channel\<lparr>offset := 1/2\<rparr>) (-1)
   \<and> add_offset (create_channel\<lparr>offset := 1/2\<rparr>) (-1) \<le> 1"
  using add_offset_in_range [of "-1" "create_channel\<lparr>offset := 1/2\<rparr>"]
  by (simp add: create_channel_def)

subsection \<open>Square-law sweep\<close>

lemma sqrt_300: "sqrt 300 = 10 * sqrt 3"
proof -
  have "sqrt 300 = sqrt (10\<^sup>2 * 3)" by simp
  also have "\<dots> = 10 * sqrt 3"
    by (simp only: real_sqrt_mult real_sqrt_abs)
  finally show ?thesis .
qed

lemma square_mult_example:
  "mult (start_sweep (create_channel\<lparr>sweep := Square, freq := 100, freq2 := 400\<rparr>) 100 44100)
     = 1 / 10"
  by (simp add: start_sweep_def create_channel_def sqrt_300)

text \<open>
  C1, as the spec states it, fails: for a sweep from 100 Hz to 400 Hz over \<open>N = 100\<close> samples
  \<^verbatim>\<open>start\<close> computes the multiplier \<open>sqrt 300 / 100 / sqrt 3 = 1/10\<close>, while
  \<open>sign (f2 - f) * sqrt (|f2 - f| / N / 3)\<close> is \<open>1\<close>.
\<close>

theorem square_mult_counterexample:
  "mult (start_sweep (create_channel\<lparr>sweep := Square, freq := 100, freq2 := 400\<rparr>) 100 44100)
     = 1 / 10
   \<and> sgn (400 - 100 :: real) * sqrt (\<bar>400 - 100\<bar> / 100 / 3) = 1
   \<and> mult (start_sweep (create_channel\<lparr>sweep := Square, freq := 100, freq2 := 400\<rparr>) 100 44100)
     \<noteq> sgn (400 - 100 :: real) * sqrt (\<bar>400 - 100\<bar> / 100 / 3)"
  using square_mult_example by simp

text \<open>
  C1, amended. For a square-law sweep with base frequency \<open>f\<close>, target \<open>f2\<close> and planned
  sample count \<open>N\<close>, the multiplier computed at start is \<open>sign (f2 - f) * sqrt (|f2 - f| / 3) / N\<close>
  (the sample count divides outside the root), and \<open>0\<close> when \<open>N = 0\<close>; the phase of a sample
  is then \<open>(f + sign m * (n * m)\<^sup>2) * t\<close> for \<open>n\<close> elapsed samples and the elapsed time
  \<open>t = n / rate\<close>.
\<close>

theorem square_sweep:
  assumes "sweep chan = Square"
  shows "mult (start_sweep chan N rate) =
           (if N = 0 then 0
            else sgn (freq2 chan - freq chan) * sqrt (\<bar>freq2 chan - freq chan\<bar> / 3) / real N)
         \<and> fst (sweep_phase sign (start_sweep chan N rate) n rate) =
             (freq chan
                + sign (mult (start_sweep chan N rate)) * (real n * mult (start_sweep chan N rate))\<^sup>2)
               * (real n / rate)"
  using assms
  by (auto simp: start_sweep_def sweep_phase_def Let_def sqr_def power2_eq_square
      real_sqrt_divide sgn_if)

theorem square_sweep_witness:
  "sweep (create_channel\<lparr>sweep := Square, freq := 100, freq2 := 400\<rparr>) = Square
   \<and> mult (start_sweep (create_channel\<lparr>sweep := Square, freq := 100, freq2 := 400\<rparr>) 100 44100)
       = sgn (400 - 100 :: real) * sqrt (\<bar>400 - 100\<bar> / 3) / 100
   \<and> fst (sweep_phase (\<lambda>x. if x < 0 then - 1 else 1)
        (start_sweep (create_channel\<lparr>sweep := Square, freq := 100, freq2 := 400\<rparr>) 100 44100)
        50 44100) = (100 + (50 * (1 / 10))\<^sup>2) * (50 / 44100)"
proof -
  let ?chan = "create_channel\<lparr>sweep := Square, freq := 100, freq2 := 400\<rparr>"
  have sq: "sweep ?chan = Square" and f: "freq ?chan = 100" "freq2 ?chan = 400"
    by (simp_all add: create_channel_def)
  note inst = square_sweep [OF sq, of 100 44100 "\<lambda>x. if x < 0 then - 1 else 1" 50]
  show ?thesis
    using inst sq unfolding square_mult_example f by simp
qed

subsection \<open>Trapezium defaults\<close>

text \<open>
  C2, as stated, fails: with only \<open>p1 = 0.4\<close> given, the symmetric branch sets
  \<open>p2 = (1 - 0.8) / 2 = 0.1\<close> and \<open>p3 = 0.5\<close>, so \<open>p1 \<le> p2\<close> is false; and three given
  parameters are kept as they are, ordered or not (\<open>p1 = 0.5\<close>, \<open>p2 = 0.3\<close>, \<open>p3 = 0.1\<close>).
\<close>

theorem trapezium_order_counterexample:
  "set_default_parameters (create_channel\<lparr>type := synth_trapezium, p1 := 4/10\<rparr>) 0
     = Inr (create_channel\<lparr>type := synth_trapezium, p1 := 4/10, p2 := 1/10, p3 := 5/10\<rparr>)
   \<and> \<not> ((4/10 :: real) \<le> 1/10)
   \<and> set_default_parameters
        (create_channel\<lparr>type := synth_trapezium, p1 := 5/10, p2 := 3/10, p3 := 1/10\<rparr>) 0
     = Inr (create_channel\<lparr>type := synth_trapezium, p1 := 5/10, p2 := 3/10, p3 := 1/10\<rparr>)
   \<and> \<not> ((5/10 :: real) \<le> 3/10)"
  by (simp add: set_default_parameters_def create_channel_def)

text \<open>
  C2, amended. For every trapezium channel whose parameters are each unset (\<open>-1\<close>) or in
  \<open>[0,1]\<close>, default resolution gives \<open>0 \<le> p1 \<le> p2 \<le> p3 \<le> 1\<close> provided the parameters that
  were given are in this order and \<open>p1\<close> is not given alone with \<open>p1 \<le> 0.5\<close>: with nothing
  given the shape is \<open>(0.1, 0.5, 0.6)\<close>; \<open>p1 > 0.5\<close> given alone gives \<open>p2 = p1\<close>, \<open>p3 = 1\<close>;
  \<open>p1\<close> and \<open>p2\<close> given without \<open>p3\<close> give \<open>p3 = 1\<close>; three given parameters are kept.
\<close>

theorem trapezium_order:
  assumes "type chan = synth_trapezium"
    and "p1 chan = -1 \<or> (0 \<le> p1 chan \<and> p1 chan \<le> 1)"
    and "p2 chan = -1 \<or> (0 \<le> p2 chan \<and> p2 chan \<le> 1)"
    and "p3 chan = -1 \<or> (0 \<le> p3 chan \<and> p3 chan \<le> 1)"
    and "0 \<le> p1 chan \<Longrightarrow> 0 \<le> p2 chan \<Longrightarrow> p1 chan \<le> p2 chan"
    and "0 \<le> p1 chan \<Longrightarrow> 0 \<le> p2 chan \<Longrightarrow> 0 \<le> p3 chan \<Longrightarrow> p2 chan \<le> p3 chan"
    and "0 \<le> p1 chan \<Longrightarrow> p2 chan < 0 \<Longrightarrow> 1/2 < p1 chan"
  shows "\<exists>chan'. set_default_parameters chan c = Inr chan'
           \<and> chan' = (if p1 chan < 0 then chan\<lparr>p1 := 1/10, p2 := 1/2, p3 := 6/10\<rparr>
                       else if p2 chan < 0 then chan\<lparr>p2 := p1 chan, p3 := 1\<rparr>
                       else if p3 chan < 0 then chan\<lparr>p3 := 1\<rparr>
                       else chan)
           \<and> 0 \<le> p1 chan' \<and> p1 chan' \<le> p2 chan' \<and> p2 chan' \<le> p3 chan' \<and> p3 chan' \<le> 1"
proof -
  let ?r = "if p1 chan < 0 then chan\<lparr>p1 := 1/10, p2 := 1/2, p3 := 6/10\<rparr>
            else if p2 chan < 0 then chan\<lparr>p2 := p1 chan, p3 := 1\<rparr>
            else if p3 chan < 0 then chan\<lparr>p3 := 1\<rparr>
            else chan"
  have sym: "\<not> p1 chan \<le> 1/2" if "\<not> p1 chan < 0" "p2 chan < 0"
    using assms(7) that by simp
  have eq: "set_default_parameters chan c = Inr ?r"
    using assms(1) sym by (simp add: set_default_parameters_def)
  have ord: "0 \<le> p1 ?r \<and> p1 ?r \<le> p2 ?r \<and> p2 ?r \<le> p3 ?r \<and> p3 ?r \<le> 1"
  proof (cases "p1 chan < 0")
    case True
    then show ?thesis by simp
  next
    case p1: False
    show ?thesis
    proof (cases "p2 chan < 0")
      case True
      with p1 assms(2) show ?thesis by simp
    next
      case p2: False
      show ?thesis
      proof (cases "p3 chan < 0")
        case True
        with p1 p2 assms(3) assms(5) show ?thesis by simp
      next
        case False
        with p1 p2 assms(4) assms(5) assms(6) show ?thesis by simp
      qed
    qed
  qed
  show ?thesis
    using eq ord by (intro exI [of _ ?r]) simp
qed

theorem trapezium_order_witness:
  "type (create_channel\<lparr>type := synth_trapezium, p1 := 7/10\<rparr>) = synth_trapezium
   \<and> set_default_parameters (create_channel\<lparr>type := synth_trapezium, p1 := 7/10\<rparr>) 0
        = Inr (create_channel\<lparr>type := synth_trapezium, p1 := 7/10, p2 := 7/10, p3 := 1\<rparr>)
   \<and> (0::real) \<le> 7/10 \<and> (7/10::real) \<le> 1"
  using trapezium_order [of "create_channel\<lparr>type := synth_trapezium, p1 := 7/10\<rparr>" 0]
  by (simp add: create_channel_def)

subsection \<open>Pluck defaults\<close>

text \<open>
  C10. For every pluck channel, if \<open>p2\<close> is unset (negative) at start, default resolution
  assigns both \<open>p2 = 0.2\<close> and \<open>p3 = 0.9\<close>, whatever \<open>p3\<close> was; \<open>p3\<close> is kept only when \<open>p2\<close>
  was given.
\<close>

theorem pluck_default_p2_p3:
  assumes "type chan = synth_pluck"
  shows "\<exists>chan'. set_default_parameters chan c = Inr chan'
           \<and> (p2 chan < 0 \<longrightarrow> p2 chan' = 2/10 \<and> p3 chan' = 9/10)
           \<and> (\<not> p2 chan < 0 \<longrightarrow> p2 chan' = p2 chan \<and> p3 chan' = p3 chan)"
  using assms by (simp add: set_default_parameters_def Let_def)

theorem pluck_default_p2_p3_witness:
  "type (create_channel\<lparr>type := synth_pluck, p3 := 1/2\<rparr>) = synth_pluck
   \<and> p2 (create_channel\<lparr>type := synth_pluck, p3 := 1/2\<rparr>) < 0
   \<and> (\<exists>chan'. set_default_parameters (create_channel\<lparr>type := synth_pluck, p3 := 1/2\<rparr>) 0
                  = Inr chan'
          \<and> p2 chan' = 2/10 \<and> p3 chan' = 9/10)"
  using pluck_default_p2_p3 [of "create_channel\<lparr>type := synth_pluck, p3 := 1/2\<rparr>" 0]
  by (simp add: create_channel_def)

subsection \<open>Pink noise rows\<close>

text \<open>
  C4. The row count passed for channel index \<open>c\<close> is \<open>10 + 2 * c\<close>, and nothing caps it:
  for the channel of index 11 it is 32, above \<^verbatim>\<open>PINK_MAX_RANDOM_ROWS\<close>. The clearing loop
  then leaves the array at index 30, and the mask \<^verbatim>\<open>1 << 32\<close> before it is already
  undefined.
\<close>

theorem pink_rows_exceed_maximum:
  "10 + 2 * 11 = (32::nat) \<and> PINK_MAX_RANDOM_ROWS < 32
   \<and> clear_rows 32 (pink_Rows (pink_noise create_channel)) = Inl (RowIndexOutOfBounds 30)
   \<and> set_default_parameters (create_channel\<lparr>type := synth_pinknoise\<rparr>) 11
       = Inl (ShiftOverflow 32)"
  by (simp add: set_default_parameters_def create_channel_def zero_pink_def
      PINK_MAX_RANDOM_ROWS_def InitializePinkNoise_def eval_nat_numeral)

lemma clear_rows_in_bounds:
  "n \<le> length rows \<Longrightarrow> clear_rows n rows = Inr (replicate n 0 @ drop n rows)"
proof (induction n)
  case 0
  then show ?case by simp
next
  case (Suc n)
  then have "n < length rows" by simp
  then have "(replicate n 0 @ drop n rows)[n := 0] = replicate (Suc n) 0 @ drop (Suc n) rows"
    by (simp add: list_update_append replicate_append_same upd_conv_take_nth_drop)
  with Suc show ?case by simp
qed

text \<open>Up to channel index 10 the rows fit: 30 rows at most, all cleared.\<close>

lemma pink_rows_fit:
  assumes "type chan = synth_pinknoise"
    and "length (pink_Rows (pink_noise chan)) = PINK_MAX_RANDOM_ROWS"
    and "c \<le> 10"
  shows "set_default_parameters chan c =
           Inr (chan\<lparr>pink_noise := (pink_noise chan)
                  \<lparr> pink_Index := 0, pink_IndexMask := 2 ^ (10 + 2 * c) - 1,
                    pink_Scalar := 1 / real ((10 + 2 * c + 1) * 2 ^ 23),
                    pink_Rows := replicate (10 + 2 * c) 0
                                   @ drop (10 + 2 * c) (pink_Rows (pink_noise chan)),
                    pink_RunningSum := 0 \<rparr>\<rparr>)"
  using assms
  by (simp add: set_default_parameters_def InitializePinkNoise_def PINK_MAX_RANDOM_ROWS_def
      PINK_RANDOM_BITS_def clear_rows_in_bounds Let_def)

subsection \<open>The phase read by the waveforms\<close>

lemma ln_two_gt_half: "1/2 < ln (2::real)"
proof -
  have "exp (1/2) * exp (1/2) = exp (1::real)"
    by (simp add: exp_add [symmetric])
  moreover have "exp (1::real) \<le> 3" by (rule exp_le)
  ultimately have sq: "exp (1/2) * exp (1/2) < (4::real)" by simp
  have "exp (1/2) < (2::real)"
  proof (rule ccontr)
    assume "\<not> exp (1/2) < (2::real)"
    then have "2 \<le> exp (1/2 :: real)" by simp
    then have "2 * 2 \<le> exp (1/2) * exp (1/2 :: real)"
      by (intro mult_mono) auto
    with sq show False by simp
  qed
  then have "ln (exp (1/2)) < ln (2::real)"
    by (subst ln_less_cancel_iff) auto
  then show ?thesis by simp
qed

lemma fmod_one_small_negative:
  assumes "-1 < x" "x < 0"
  shows "fmod x 1 = x"
proof -
  have "\<lceil>x\<rceil> = 0" using assms by (simp add: ceiling_eq_iff)
  then show ?thesis using assms by (simp add: fmod_def)
qed

lemma fmod_one_negative: "x < 0 \<Longrightarrow> fmod x 1 \<le> 0"
  by (simp add: fmod_def)

lemma fmod_one_nonneg: "0 \<le> x \<Longrightarrow> 0 \<le> fmod x 1 \<and> fmod x 1 < 1"
  by (simp add: fmod_def) linarith

text \<open>
  C3. A sine channel sweeping exponentially from 440 Hz down to 220 Hz over 50 samples at
  44100 Hz: \<^verbatim>\<open>start\<close> sets \<open>mult = ln (1/2) / 50 * 44100 < 0\<close> and divides the frequency by
  it, so the phase of the first sample is \<open>- 440 / (882 * ln 2)\<close>, about \<open>-0.72\<close>;
  \<^verbatim>\<open>fmod\<close> keeps the sign, and the waveform reads a negative phase.
\<close>

theorem exp_sweep_down_phase_negative:
  "\<exists>chan'. tonal_phase sign
       (start_sweep (create_channel\<lparr>sweep := Exp, freq := 440, freq2 := 220\<rparr>) 50 44100) 0 44100
     = Some (- 440 / (882 * ln 2), chan')
   \<and> - 440 / (882 * ln 2) < (0::real)"
proof -
  have l: "ln (1/2 :: real) = - ln 2"
    by (simp add: ln_div)
  have b: "- 1 < - 440 / (882 * ln (2::real))" "- 440 / (882 * ln (2::real)) < 0"
    using ln_two_gt_half by (auto simp: field_simps)
  show ?thesis
    using b fmod_one_small_negative [OF b]
    by (simp add: tonal_phase_def sweep_phase_def start_sweep_def create_channel_def l Let_def)
qed

text \<open>
  The same at every sample of every downward exponential sweep with no phase offset: the
  phase read is never positive.
\<close>

lemma exp_sweep_down_phase_nonpositive:
  assumes "sweep chan = Exp" "type_value (type chan) < type_value synth_noise"
    and "0 < freq2 chan" "freq2 chan < freq chan" "0 < N" "0 < rate" "phase chan = 0"
  shows "\<exists>ph chan'. tonal_phase sign (start_sweep chan N rate) n rate = Some (ph, chan') \<and> ph \<le> 0"
proof -
  define m where "m = ln (freq2 chan / freq chan) / real N * rate"
  have "ln (freq2 chan / freq chan) < 0"
    using assms by (subst ln_less_zero_iff) auto
  then have "ln (freq2 chan / freq chan) / real N < 0"
    using assms(5) by (simp add: divide_neg_pos)
  then have m: "m < 0"
    unfolding m_def using assms(6) by (rule mult_neg_pos)
  have "freq chan / m < 0"
    using m assms by (simp add: divide_pos_neg)
  then have "freq chan / m * exp (m * real n / rate) < 0"
    by (rule mult_neg_pos) (rule exp_gt_zero)
  then have "fmod (freq chan / m * exp (m * real n / rate)) 1 \<le> 0"
    by (rule fmod_one_negative)
  then show ?thesis
    using assms by (simp add: tonal_phase_def sweep_phase_def start_sweep_def Let_def m_def)
qed

subsection \<open>Exponential-per-cycle sweep\<close>









subsection \<open>Brown noise\<close>

lemma brownnoise_loop_None:
  "brownnoise_loop last_out draws = None \<longleftrightarrow> (\<forall>d\<in>set draws. \<bar>last_out + d * (1 / 16)\<bar> > 1)"
  by (induction draws) (auto simp: Let_def)

lemma brownnoise_loop_Some:
  "brownnoise_loop last_out draws = Some (s, rest) \<Longrightarrow>
     \<bar>s\<bar> \<le> 1 \<and> (\<exists>rej d. draws = rej @ d # rest \<and> s = last_out + d * (1 / 16)
                    \<and> (\<forall>e\<in>set rej. \<bar>last_out + e * (1 / 16)\<bar> > 1))"
proof (induction draws)
  case Nil
  then show ?case by simp
next
  case (Cons r draws)
  show ?case
  proof (cases "\<bar>last_out + r * (1 / 16)\<bar> > 1")
    case True
    with Cons.prems have "brownnoise_loop last_out draws = Some (s, rest)"
      by (simp add: Let_def)
    from Cons.IH [OF this] obtain rej d where
      s: "\<bar>s\<bar> \<le> 1" and d: "draws = rej @ d # rest" "s = last_out + d * (1 / 16)"
      and rej: "\<forall>e\<in>set rej. \<bar>last_out + e * (1 / 16)\<bar> > 1"
      by blast
    have "r # draws = (r # rej) @ d # rest" using d by simp
    moreover have "\<forall>e\<in>set (r # rej). \<bar>last_out + e * (1 / 16)\<bar> > 1"
      using True rej by simp
    ultimately show ?thesis using s d(2) by blast
  next
    case False
    with Cons.prems have "s = last_out + r * (1 / 16)" "rest = draws"
      by (simp_all add: Let_def)
    moreover have "r # draws = [] @ r # draws" by simp
    ultimately show ?thesis using False by fastforce
  qed
qed

lemma brownnoise_samples_bounded:
  "brownnoise_samples k chan draws = Some (outs, chan', rest) \<Longrightarrow>
     length outs = k \<and> (\<forall>s\<in>set outs. \<bar>s\<bar> \<le> 1)"
proof (induction k arbitrary: chan draws outs)
  case 0
  then show ?case by simp
next
  case (Suc k)
  from Suc.prems obtain s chan1 rest1 outs1 where
    one: "brownnoise chan draws = Some (s, chan1, rest1)"
    and more: "brownnoise_samples k chan1 rest1 = Some (outs1, chan', rest)"
    and outs: "outs = s # outs1"
    by (auto split: option.splits)
  from one have "\<bar>s\<bar> \<le> 1"
    by (auto simp: brownnoise_def split: option.splits dest: brownnoise_loop_Some)
  with Suc.IH [OF more] outs show ?case by simp
qed

text \<open>
  A draw that does not push the accumulator away from zero is always accepted, so the
  loop ends as soon as the generator gives one.
\<close>

lemma brownnoise_can_end:
  fixes last_out d :: real
  assumes "\<bar>last_out\<bar> \<le> 1" "\<bar>d\<bar> \<le> 1" "last_out * d \<le> 0"
  shows "\<bar>last_out + d * (1 / 16)\<bar> \<le> 1"
proof -
  have "(0 \<le> last_out \<and> d \<le> 0) \<or> (last_out \<le> 0 \<and> 0 \<le> d)"
    using assms(3) mult_le_0_iff [of last_out d] by blast
  then show ?thesis using assms(1,2) by auto
qed

text \<open>
  C7. For every brown-noise channel, a call adds \<open>white_draw / 16\<close> to the accumulator
  \<^verbatim>\<open>lp_last_out\<close>, and a step that would leave \<open>[-1,1]\<close> is rejected whole and redrawn:
  the call returns for the first draw that keeps the sum in \<open>[-1,1]\<close> (and does not return
  only while every draw is rejected), stores that sum and gives it as the sample. So every
  sample produced, over any number of frames, has magnitude at most 1.
\<close>

theorem brownnoise_bounded:
  "(brownnoise chan draws = None \<longleftrightarrow> (\<forall>d\<in>set draws. \<bar>lp_last_out chan + d * (1 / 16)\<bar> > 1))
   \<and> (\<forall>out chan' rest. brownnoise chan draws = Some (out, chan', rest) \<longrightarrow>
          \<bar>out\<bar> \<le> 1 \<and> chan' = chan\<lparr>lp_last_out := out\<rparr>
          \<and> (\<exists>rej d. draws = rej @ d # rest \<and> out = lp_last_out chan + d * (1 / 16)
                \<and> (\<forall>e\<in>set rej. \<bar>lp_last_out chan + e * (1 / 16)\<bar> > 1)))
   \<and> (\<forall>outs chan' rest. brownnoise_samples k chan draws = Some (outs, chan', rest) \<longrightarrow>
          length outs = k \<and> (\<forall>s\<in>set outs. \<bar>s\<bar> \<le> 1))"
proof (intro conjI allI impI)
  show "brownnoise chan draws = None \<longleftrightarrow> (\<forall>d\<in>set draws. \<bar>lp_last_out chan + d * (1 / 16)\<bar> > 1)"
    using brownnoise_loop_None [of "lp_last_out chan" draws]
    by (auto simp: brownnoise_def split: option.splits)
next
  fix out chan' rest
  assume a: "brownnoise chan draws = Some (out, chan', rest)"
  then have l: "brownnoise_loop (lp_last_out chan) draws = Some (out, rest)"
    and c: "chan' = chan\<lparr>lp_last_out := out\<rparr>"
    by (auto simp: brownnoise_def split: option.splits)
  from brownnoise_loop_Some [OF l] show "\<bar>out\<bar> \<le> 1" by simp
  from c show "chan' = chan\<lparr>lp_last_out := out\<rparr>" .
  from brownnoise_loop_Some [OF l]
  show "\<exists>rej d. draws = rej @ d # rest \<and> out = lp_last_out chan + d * (1 / 16)
                \<and> (\<forall>e\<in>set rej. \<bar>lp_last_out chan + e * (1 / 16)\<bar> > 1)" by simp
next
  fix outs chan' rest
  assume "brownnoise_samples k chan draws = Some (outs, chan', rest)"
  from brownnoise_samples_bounded [OF this]
  show "length outs = k" "\<forall>s\<in>set outs. \<bar>s\<bar> \<le> 1" by simp_all
qed

theorem brownnoise_bounded_witness:
  "brownnoise (create_channel\<lparr>type := synth_brownnoise, lp_last_out := 31/32\<rparr>) [1, - 1/2]
     = Some (15/16, create_channel\<lparr>type := synth_brownnoise, lp_last_out := 15/16\<rparr>, [])
   \<and> \<bar>15/16 :: real\<bar> \<le> 1
   \<and> brownnoise_samples 2 create_channel [1/2, - 1] = Some ([1/32, - 1/32], create_channel\<lparr>lp_last_out := - 1/32\<rparr>, [])"
  using brownnoise_bounded [of "create_channel\<lparr>type := synth_brownnoise, lp_last_out := 31/32\<rparr>" "[1, - 1/2]" 2]
  by (simp add: brownnoise_def create_channel_def Let_def eval_nat_numeral)

subsection \<open>Sweeps and \<^verbatim>\<open>getopts\<close>\<close>

text \<open>
  With finite frequencies \<^verbatim>\<open>getopts\<close> fails, before \<^verbatim>\<open>start\<close> and \<^verbatim>\<open>flow\<close> run, whenever
  a sweep is asked for (a character of \<^verbatim>\<open>":+/-"\<close> follows the first frequency) and the type
  is a noise or pluck, or the sweep is exponential (\<^verbatim>\<open>/\<close>) or exponential per cycle (\<^verbatim>\<open>-\<close>)
  and one of the two frequencies is zero.
\<close>

lemma sweep_rejected_finite:
  assumes "lsx_parse_frequency_k arg = (f, ch # rest)" "ch \<in> set sweeps"
    and "lsx_parse_frequency_k rest = (f2, rest2)"
    and "((ch = CHR ''/'' \<or> ch = CHR ''-'')
            \<and> (\<exists>a b. f = Finite a \<and> f2 = Finite b \<and> (a = 0 \<or> b = 0)))
         \<or> type_value (type chan) \<ge> type_value synth_noise"
  shows "\<exists>e. read_frequencies lsx_parse_frequency_k length_given chan arg = Inl e"
proof -
  from assms(2) obtain i where i: "strchr sweeps ch = Some i"
    by (auto simp: sweeps_def)
  have v: "(ch = CHR ''/'' \<or> ch = CHR ''-'') \<Longrightarrow> sweep_value (sweep_of_value i) \<ge> 2"
    using i by (auto simp: sweeps_def split: if_splits)
  show ?thesis
    using assms(1,3,4) i v
    by (auto simp: read_frequencies_def Let_def split: sum.splits prod.splits list.splits)
qed

text \<open>
  C9. The zero endpoint is tested with \<^verbatim>\<open>chan->freq * chan->freq2 == 0\<close>. For the
  argument \<^verbatim>\<open>0/inf\<close>, read as the frequencies 0 and plus infinity, the product is NaN, the
  comparison is false, no earlier test stops an infinity, and \<^verbatim>\<open>getopts\<close> accepts an
  exponential sweep that starts at zero.
\<close>

theorem exp_sweep_zero_inf_accepted:
  "read_frequencies (\<lambda>s. if s = ''0/inf'' then (Finite 0, ''/inf'') else (PlusInf, ''''))
     True create_channel ''0/inf'' = Inr (Exp, Finite 0, PlusInf)
   \<and> double_times (Finite 0) PlusInf = NaN"
  by (simp add: read_frequencies_def sweeps_def create_channel_def Let_def)

subsection \<open>Pluck: the normalised excitation buffer\<close>

lemma Min_insert_min:
  fixes a b :: real
  shows "finite A \<Longrightarrow> Min (insert (min a b) A) = Min (insert a (insert b A))"
  by (cases "A = {}") (simp_all add: min.assoc)

lemma Max_insert_max:
  fixes a b :: real
  shows "finite A \<Longrightarrow> Max (insert (max a b) A) = Max (insert a (insert b A))"
  by (cases "A = {}") (simp_all add: max.assoc)

lemma Min_insert_zero:
  fixes A :: "real set"
  assumes "finite A" "x \<in> A" "x \<le> 0"
  shows "Min (insert 0 A) = Min A"
proof -
  have ne: "A \<noteq> {}" using assms(2) by auto
  define m where "m = Min A"
  have "m \<le> x" unfolding m_def using assms(1,2) by (rule Min_le)
  then have "m \<le> 0" using assms(3) by simp
  moreover have "Min (insert 0 A) = min 0 m"
    unfolding m_def using assms(1) ne by (rule Min_insert)
  ultimately show ?thesis by (simp add: m_def [symmetric] min_def)
qed

lemma Max_insert_zero:
  fixes A :: "real set"
  assumes "finite A" "x \<in> A" "0 \<le> x"
  shows "Max (insert 0 A) = Max A"
proof -
  have ne: "A \<noteq> {}" using assms(2) by auto
  define m where "m = Max A"
  have "x \<le> m" unfolding m_def using assms(1,2) by (rule Max_ge)
  then have "0 \<le> m" using assms(3) by simp
  moreover have "Max (insert 0 A) = max 0 m"
    unfolding m_def using assms(1) ne by (rule Max_insert)
  ultimately show ?thesis by (simp add: m_def [symmetric] max_def)
qed

lemma graduation_min_max:
  "graduation j bs chan mn mx = (g, chan', mn', mx') \<Longrightarrow>
     length g = length bs \<and> mn' = Min (insert mn (set g)) \<and> mx' = Max (insert mx (set g))"
proof (induction bs arbitrary: j chan mn mx g chan' mn' mx')
  case Nil
  then show ?case by simp
next
  case (Cons b bs)
  define d where "d = b * c1 chan + lp_last_out chan * c0 chan"
  define ap where "ap = d * c4 chan + ap_last_in chan - ap_last_out chan * c4 chan"
  define chan3 where "chan3 = chan\<lparr>lp_last_out := d, ap_last_out := ap, ap_last_in := d\<rparr>"
  define b' where "b' = b * (1 - real j / real (buffer_len chan)) + ap * (real j / real (buffer_len chan))"
  obtain g1 chan4 mn1 mx1 where
    rec: "graduation (Suc j) bs chan3 (min mn b') (max mx b') = (g1, chan4, mn1, mx1)"
    by (metis prod_cases4)
  have unfold: "graduation j (b # bs) chan mn mx = (b' # g1, chan4, mn1, mx1)"
    using rec by (simp add: Let_def d_def ap_def chan3_def b'_def)
  with Cons.prems have eq: "g = b' # g1" "chan' = chan4" "mn' = mn1" "mx' = mx1"
    by simp_all
  from Cons.IH [OF rec] have len: "length g1 = length bs"
    and mn1: "mn1 = Min (insert (min mn b') (set g1))"
    and mx1: "mx1 = Max (insert (max mx b') (set g1))"
    by simp_all
  have "Min (insert (min mn b') (set g1)) = Min (insert mn (insert b' (set g1)))"
    by (rule Min_insert_min) simp
  moreover have "Max (insert (max mx b') (set g1)) = Max (insert mx (insert b' (set g1)))"
    by (rule Max_insert_max) simp
  ultimately show ?case
    using eq len mn1 mx1 by simp
qed

lemma normalise_range:
  assumes "mn < mx" "\<forall>v\<in>set g. mn \<le> v \<and> v \<le> mx"
  shows "\<forall>w\<in>set (normalise mn mx g). - 1 \<le> w \<and> w \<le> 1"
  using assms by (auto simp: normalise_def field_simps)

lemma normalise_Min:
  assumes "mn < mx" "mn \<in> set g" "\<forall>v\<in>set g. mn \<le> v"
  shows "Min (set (normalise mn mx g)) = - 1"
proof (rule Min_eqI)
  show "finite (set (normalise mn mx g))" by simp
  show "- 1 \<le> w" if "w \<in> set (normalise mn mx g)" for w
    using that assms by (auto simp: normalise_def field_simps)
  have "(2 * mn - mx - mn) / (mx - mn) = - 1"
    using assms(1) by (simp add: field_simps)
  then show "- 1 \<in> set (normalise mn mx g)"
    using assms(2) by (force simp: normalise_def)
qed

lemma normalise_Max:
  assumes "mn < mx" "mx \<in> set g" "\<forall>v\<in>set g. v \<le> mx"
  shows "Max (set (normalise mn mx g)) = 1"
proof (rule Max_eqI)
  show "finite (set (normalise mn mx g))" by simp
  show "w \<le> 1" if "w \<in> set (normalise mn mx g)" for w
    using that assms by (auto simp: normalise_def field_simps)
  have "(2 * mx - mx - mn) / (mx - mn) = 1"
    using assms(1) by (simp add: field_simps)
  then show "1 \<in> set (normalise mn mx g)"
    using assms(2) by (force simp: normalise_def)
qed

text \<open>
  \<^verbatim>\<open>min\<close> and \<open>max\<close> start at 0, so a buffer whose graduated samples are all positive is
  scaled with \<open>min = 0\<close>, and no sample reaches \<open>-1\<close>.
\<close>

lemma normalise_all_positive:
  assumes "graduation 0 (buffer chan) chan 0 0 = (g, chan1, mn, mx)"
    and "g \<noteq> []" "\<forall>x\<in>set g. 0 < x"
  shows "mn = 0 \<and> (\<forall>w\<in>set (buffer (graduate_and_normalise chan)). - 1 < w)"
proof -
  have ne: "set g \<noteq> {}" using assms(2) by simp
  from graduation_min_max [OF assms(1)]
  have mn0: "mn = Min (insert 0 (set g))" and mx0: "mx = Max (insert 0 (set g))"
    by simp_all
  have mn: "mn = 0"
    unfolding mn0
  proof (rule Min_eqI)
    show "finite (insert 0 (set g))" by simp
    show "0 \<le> v" if "v \<in> insert 0 (set g)" for v
      using that assms(3) by auto
    show "0 \<in> insert 0 (set g)" by simp
  qed
  obtain v0 where v0: "v0 \<in> set g" using assms(2) by (cases g) auto
  have "v0 \<le> mx" unfolding mx0 using v0 by (intro Max_ge) simp_all
  moreover have "0 < v0" using v0 assms(3) by simp
  ultimately have mx: "0 < mx" by simp
  have buf: "buffer (graduate_and_normalise chan) = normalise mn mx g"
    using assms(1) by (simp add: graduate_and_normalise_def)
  have "- 1 < (2 * v - mx - 0) / (mx - 0)" if "v \<in> set g" for v
  proof -
    have "0 < v" using that assms(3) by simp
    then show ?thesis using mx by (simp add: field_simps)
  qed
  then show ?thesis
    unfolding buf using mn by (auto simp: normalise_def)
qed

text \<open>
  When the graduated buffer has a sample on each side of 0 (and is not all 0), \<^verbatim>\<open>min\<close> and
  \<^verbatim>\<open>max\<close> are its extremes and the normalised buffer spans \<open>[-1,1]\<close> exactly.
\<close>

lemma normalise_min_max:
  assumes "graduation 0 (buffer chan) chan 0 0 = (g, chan1, mn, mx)"
    and "\<exists>x\<in>set g. x \<le> 0" "\<exists>y\<in>set g. 0 \<le> y" "\<exists>z\<in>set g. z \<noteq> 0"
  shows "buffer (graduate_and_normalise chan) = normalise mn mx g
         \<and> mn = Min (set g) \<and> mx = Max (set g)
         \<and> Min (set (buffer (graduate_and_normalise chan))) = - 1
         \<and> Max (set (buffer (graduate_and_normalise chan))) = 1"
proof -
  obtain x y z where x: "x \<in> set g" "x \<le> 0" and y: "y \<in> set g" "0 \<le> y"
    and z: "z \<in> set g" "z \<noteq> 0"
    using assms(2-4) by blast
  have ne: "set g \<noteq> {}" using x(1) by auto
  from graduation_min_max [OF assms(1)]
  have mn0: "mn = Min (insert 0 (set g))" and mx0: "mx = Max (insert 0 (set g))"
    by simp_all
  have mn: "mn = Min (set g)"
    unfolding mn0 using x by (intro Min_insert_zero) simp_all
  have mx: "mx = Max (set g)"
    unfolding mx0 using y by (intro Max_insert_zero) simp_all
  have mn_in: "mn \<in> set g"
    unfolding mn using ne by (intro Min_in) simp_all
  have mx_in: "mx \<in> set g"
    unfolding mx using ne by (intro Max_in) simp_all
  have lo: "\<forall>v\<in>set g. mn \<le> v" and hi: "\<forall>v\<in>set g. v \<le> mx"
    unfolding mn mx by simp_all
  have "mn \<le> x" "y \<le> mx" "mn \<le> z" "z \<le> mx"
    using lo hi x(1) y(1) z(1) by blast+
  then have lt: "mn < mx" using x(2) y(2) z(2) by linarith
  have buf: "buffer (graduate_and_normalise chan) = normalise mn mx g"
    using assms(1) by (simp add: graduate_and_normalise_def)
  show ?thesis
    unfolding buf
    using normalise_Min [OF lt mn_in lo] normalise_Max [OF lt mx_in hi] mn mx by simp
qed

text \<open>
  C6. The normalisation maps \<^verbatim>\<open>min\<close> to \<open>-1\<close> and \<^verbatim>\<open>max\<close> to 1, but the two start at 0
  instead of at a sample: for every pluck channel they are the least and the greatest of
  the graduated samples and 0. A buffer whose graduated samples all have one sign
  therefore does not span \<open>[-1,1]\<close> after the step.
\<close>

theorem normalise_extremes_with_zero:
  "case graduation 0 (buffer chan) chan 0 0 of
     (g, chan1, mn, mx) \<Rightarrow>
       mn = Min (insert 0 (set g)) \<and> mx = Max (insert 0 (set g))
       \<and> buffer (graduate_and_normalise chan) = map (\<lambda>v. (2 * v - mx - mn) / (mx - mn)) g"
proof -
  obtain g chan1 mn mx where
    gr: "graduation 0 (buffer chan) chan 0 0 = (g, chan1, mn, mx)"
    using prod_cases4 by blast
  from graduation_min_max [OF gr]
  have "mn = Min (insert 0 (set g))" "mx = Max (insert 0 (set g))" by simp_all
  moreover have "buffer (graduate_and_normalise chan) = normalise mn mx g"
    unfolding graduate_and_normalise_def gr by simp
  ultimately show ?thesis
    unfolding gr by (simp add: normalise_def)
qed

end
